theory Spec2Isabelle
  imports Complex_Main
begin

section \<open>Values\<close>

text \<open>
  A cell of a pandas frame or series is a float.  The classifier only tests a float
  with \<open>np.isnan\<close> and compares two floats with \<open>>\<close> and \<open><\<close>; both comparisons
  are exact on floats and are false as soon as one side is NaN.  A float is modelled
  as either \<open>NaN\<close> or a real number.
\<close>

datatype float = NaN | Num real

fun isnan :: "float \<Rightarrow> bool" where
  "isnan NaN = True"
| "isnan (Num x) = False"

text \<open>Python's \<open>a > b\<close> and \<open>a < b\<close> on floats.\<close>

fun fgt :: "float \<Rightarrow> float \<Rightarrow> bool" where
  "fgt (Num a) (Num b) = (a > b)"
| "fgt _ _ = False"

fun flt :: "float \<Rightarrow> float \<Rightarrow> bool" where
  "flt (Num a) (Num b) = (a < b)"
| "flt _ _ = False"

text \<open>Float subtraction; NaN propagates.\<close>

fun fsub :: "float \<Rightarrow> float \<Rightarrow> float" where
  "fsub (Num a) (Num b) = Num (a - b)"
| "fsub _ _ = NaN"

text \<open>
  The exceptions.  \<open>KeyError\<close> is what indexing a pandas series with an absent label
  raises.  \<open>InsufficientDataError\<close> is the failure the specification names for the
  indicator engine; no statement of the source raises it.
\<close>

datatype error = KeyError string | InsufficientDataError

section \<open>Column labels\<close>

text \<open>Python's \<open>str\<close> of an integer, as the f-string \<open>f"sma_{n}"\<close> formats it.\<close>

definition digit_char :: "nat \<Rightarrow> char" where
  "digit_char d = ''0123456789'' ! d"

fun str_nat :: "nat \<Rightarrow> string" where
  "str_nat n = (if n < 10 then [digit_char n] else str_nat (n div 10) @ [digit_char (n mod 10)])"

declare str_nat.simps [simp del]

definition str_int :: "int \<Rightarrow> string" where
  "str_int i = (if i < 0 then CHR ''-'' # str_nat (nat (- i)) else str_nat (nat i))"

definition sma_key :: "int \<Rightarrow> string" where
  "sma_key n = ''sma_'' @ str_int n"

section \<open>The signal classifier\<close>

text \<open>
  \<open>latest\<close> is a pandas series: a mapping from column labels to floats.
  \<open>latest[k]\<close> raises \<open>KeyError\<close> when the label is absent.
\<close>

type_synonym row = "string \<rightharpoonup> float"

definition getitem :: "row \<Rightarrow> string \<Rightarrow> error + float" where
  "getitem latest k = (case latest k of None \<Rightarrow> Inl (KeyError k) | Some v \<Rightarrow> Inr v)"

text \<open>The values of the returned dictionaries: bias labels are strings, raw values floats.\<close>

datatype pyval = Str string | Float float

record verdict =
  overall_signal :: string
  details :: "string \<rightharpoonup> pyval"

text \<open>
  Lines 57 to 67 of \<open>generate_signal\<close>: the SMA block.  It takes the list
  \<open>signal_votes\<close> as it stands and returns the bias label with the list as the block
  leaves it.
\<close>

definition sma_block :: "float \<Rightarrow> float \<Rightarrow> int list \<Rightarrow> string \<times> int list" where
  "sma_block sma_fast_val sma_slow_val signal_votes =
     (if isnan sma_fast_val \<or> isnan sma_slow_val then (''neutral'', signal_votes)
      else if fgt sma_fast_val sma_slow_val then (''bullish'', signal_votes @ [1])
      else if flt sma_fast_val sma_slow_val then (''bearish'', signal_votes @ [- 1])
      else (''neutral'', signal_votes))"

text \<open>Lines 69 to 80: the RSI block.\<close>

definition rsi_block :: "float \<Rightarrow> float \<Rightarrow> float \<Rightarrow> int list \<Rightarrow> string \<times> int list" where
  "rsi_block rsi_val rsi_upper rsi_lower signal_votes =
     (if isnan rsi_val then (''neutral'', signal_votes)
      else if fgt rsi_val rsi_upper then (''overbought'', signal_votes @ [- 1])
      else if flt rsi_val rsi_lower then (''oversold'', signal_votes @ [1])
      else (''neutral'', signal_votes))"

text \<open>Lines 82 to 94: the MACD block.\<close>

definition macd_block :: "float \<Rightarrow> float \<Rightarrow> int list \<Rightarrow> string \<times> int list" where
  "macd_block macd_val macd_signal_val signal_votes =
     (if isnan macd_val \<or> isnan macd_signal_val then (''neutral'', signal_votes)
      else if fgt macd_val macd_signal_val then (''bullish'', signal_votes @ [1])
      else if flt macd_val macd_signal_val then (''bearish'', signal_votes @ [- 1])
      else (''neutral'', signal_votes))"

text \<open>Lines 96 to 105: the aggregation of the votes.\<close>

definition aggregate :: "int list \<Rightarrow> string" where
  "aggregate signal_votes =
     (if signal_votes = [] then ''neutral''
      else let score = sum_list signal_votes in
        if score > 0 then (if score \<ge> 2 then ''strong_buy'' else ''buy'')
        else if score < 0 then (if score \<le> - 2 then ''strong_sell'' else ''sell'')
        else ''neutral'')"

text \<open>The list \<open>signal_votes\<close> at line 96, after the three blocks have run in order.\<close>

definition cast_votes :: "float \<Rightarrow> float \<Rightarrow> float \<Rightarrow> float \<Rightarrow> float \<Rightarrow> float \<Rightarrow> float \<Rightarrow> int list" where
  "cast_votes sma_fast_val sma_slow_val rsi_val rsi_upper rsi_lower macd_val macd_signal_val =
     snd (macd_block macd_val macd_signal_val
       (snd (rsi_block rsi_val rsi_upper rsi_lower
         (snd (sma_block sma_fast_val sma_slow_val [])))))"

text \<open>
  \<open>generate_signal\<close>, lines 49 to 118.  The lookups happen in the order of the source,
  so the first absent label is the one the \<open>KeyError\<close> carries; \<open>latest["close"]\<close> is
  read last, while the result dictionary is built.
\<close>

definition generate_signal :: "row \<Rightarrow> int \<Rightarrow> int \<Rightarrow> float \<Rightarrow> float \<Rightarrow> error + verdict" where
  "generate_signal latest sma_fast sma_slow rsi_upper rsi_lower =
     (case getitem latest (sma_key sma_fast) of Inl e \<Rightarrow> Inl e | Inr sma_fast_val \<Rightarrow>
      case getitem latest (sma_key sma_slow) of Inl e \<Rightarrow> Inl e | Inr sma_slow_val \<Rightarrow>
      case sma_block sma_fast_val sma_slow_val [] of (sma_bias, votes1) \<Rightarrow>
      case getitem latest ''rsi'' of Inl e \<Rightarrow> Inl e | Inr rsi_val \<Rightarrow>
      case rsi_block rsi_val rsi_upper rsi_lower votes1 of (rsi_bias, votes2) \<Rightarrow>
      case getitem latest ''macd'' of Inl e \<Rightarrow> Inl e | Inr macd_val \<Rightarrow>
      case getitem latest ''macd_signal'' of Inl e \<Rightarrow> Inl e | Inr macd_signal_val \<Rightarrow>
      case macd_block macd_val macd_signal_val votes2 of (macd_bias, signal_votes) \<Rightarrow>
      let overall = aggregate signal_votes in
      case getitem latest ''close'' of Inl e \<Rightarrow> Inl e | Inr price \<Rightarrow>
        Inr \<lparr>overall_signal = overall,
             details = map_of
               [(''sma_bias'', Str sma_bias),
                (''rsi_bias'', Str rsi_bias),
                (''macd_bias'', Str macd_bias),
                (''price'', Float price),
                (''rsi'', Float rsi_val),
                (''macd'', Float macd_val),
                (''macd_signal'', Float macd_signal_val)]\<rparr>)"

text \<open>A row with the labels of the default configuration, for the worked examples.\<close>

definition example_row :: "float \<Rightarrow> float \<Rightarrow> float \<Rightarrow> float \<Rightarrow> float \<Rightarrow> row" where
  "example_row f s r m g =
     map_of [(''sma_20'', f), (''sma_50'', s), (''rsi'', r), (''macd'', m),
             (''macd_signal'', g), (''close'', Num 100)]"

section \<open>Frames and the heap\<close>

text \<open>
  One OHLCV bar.  The specification's data model makes its five prices and volumes
  finite floats, so they are real numbers here.  \<open>fetch_ohlcv\<close> names the columns
  timestamp, open, high, low, close and volume.  Arithmetic on these values is exact:
  the rounding and the overflow of double-precision arithmetic are not modelled, so
  nothing below speaks about close prices near the largest double.
\<close>

record bar =
  timestamp :: int
  open_price :: real
  high :: real
  low :: real
  close :: real
  volume :: real

text \<open>
  A pandas frame: the bars, in index order, and the columns assigned to the frame
  afterwards, each a list of floats aligned with the bars.  The labels that
  \<open>compute_indicators\<close> assigns (\<open>sma_<n>\<close>, \<open>rsi\<close>, \<open>macd\<close>, \<open>macd_signal\<close>,
  \<open>macd_hist\<close>) are never the label of an OHLCV column, so an assignment cannot
  overwrite the bars.
\<close>

record dataframe =
  bars :: "bar list"
  cols :: "string \<rightharpoonup> float list"

text \<open>
  Frames are objects: a Python variable holds a reference, and \<open>df[k] = col\<close> changes
  the object every holder of the reference sees.  The heap maps addresses to frames;
  addresses below \<open>next_addr\<close> are allocated.
\<close>

type_synonym addr = nat

record heap =
  objs :: "addr \<Rightarrow> dataframe"
  next_addr :: addr

definition empty_heap :: heap where
  "empty_heap = \<lparr>objs = (\<lambda>_. \<lparr>bars = [], cols = Map.empty\<rparr>), next_addr = 0\<rparr>"

definition alloc :: "heap \<Rightarrow> dataframe \<Rightarrow> addr \<times> heap" where
  "alloc h df = (next_addr h, h\<lparr>objs := (objs h)(next_addr h := df), next_addr := Suc (next_addr h)\<rparr>)"

text \<open>\<open>df.copy()\<close>: a new frame object with the same contents (pandas copies deeply by default).\<close>

definition copy_df :: "heap \<Rightarrow> addr \<Rightarrow> addr \<times> heap" where
  "copy_df h df = alloc h (objs h df)"

text \<open>\<open>df[k] = col\<close>: assignment of a column to the frame object at the address.\<close>

definition setitem :: "heap \<Rightarrow> addr \<Rightarrow> string \<Rightarrow> float list \<Rightarrow> heap" where
  "setitem h df k col = h\<lparr>objs := (objs h)(df := (objs h df)\<lparr>cols := (cols (objs h df))(k \<mapsto> col)\<rparr>)\<rparr>"

text \<open>\<open>df["close"]\<close>: the close prices of the frame at the address.\<close>

definition close_col :: "heap \<Rightarrow> addr \<Rightarrow> real list" where
  "close_col h df = map close (bars (objs h df))"

section \<open>The indicators\<close>

text \<open>Modelled from the spec: the padding of an indicator column.  The indicator classes
  of the \<open>ta\<close> package that \<open>compute_indicators\<close> calls are not under src/; section 4.1
  of the specification gives each indicator one value per bar, undefined on the rows
  without enough history.  \<open>lpad n vs\<close> is the column of \<open>n\<close> rows whose last rows carry
  the values \<open>vs\<close> and whose leading rows are undefined.
\<close>

definition lpad :: "nat \<Rightarrow> real list \<Rightarrow> float list" where
  "lpad n vs = replicate (n - length vs) NaN @ map Num vs"

text \<open>Modelled from the spec: SMA(window=w) at row \<open>i\<close>, for \<open>SMAIndicator\<close> of the \<open>ta\<close>
  package (not under src/): the arithmetic mean of the close prices over the trailing
  \<open>w\<close> bars ending at \<open>i\<close>, inclusive; undefined for \<open>i < w - 1\<close>.  The mean is the
  exact one; a window sum that overflows in double precision is outside this model.
\<close>

definition sma_at :: "real list \<Rightarrow> nat \<Rightarrow> nat \<Rightarrow> float" where
  "sma_at xs w i =
     (if i + 1 < w then NaN else Num (sum_list (take w (drop (i + 1 - w) xs)) / real w))"

text \<open>Modelled from the spec: \<open>SMAIndicator(close, window).sma_indicator()\<close> of the \<open>ta\<close>
  package (not under src/); one value per bar.  The specification fixes the algorithm
  for positive windows only.
\<close>

definition SMAIndicator_sma_indicator :: "real list \<Rightarrow> int \<Rightarrow> float list" where
  "SMAIndicator_sma_indicator xs window = map (sma_at xs (nat window)) [0..<length xs]"

text \<open>Modelled from the spec: the recursion of exponential smoothing with factor \<open>\<alpha>\<close>, for
  the moving averages inside the \<open>ta\<close> package (not under src/): each value is
  \<open>\<alpha> * x + (1 - \<alpha>) * previous\<close>.
\<close>

fun smooth_from :: "real \<Rightarrow> real \<Rightarrow> real list \<Rightarrow> real list" where
  "smooth_from \<alpha> prev [] = []"
| "smooth_from \<alpha> prev (x # xs) = (let y = \<alpha> * x + (1 - \<alpha>) * prev in y # smooth_from \<alpha> y xs)"

text \<open>Modelled from the spec: a smoothed average over \<open>n\<close> points, seeded conventionally
  with the simple average of the first \<open>n\<close> points, for the moving averages inside the
  \<open>ta\<close> package (not under src/).  The result lists the defined values only: none while
  fewer than \<open>n\<close> points exist, then one for each further point.
\<close>

definition smoothed :: "real \<Rightarrow> nat \<Rightarrow> real list \<Rightarrow> real list" where
  "smoothed \<alpha> n xs =
     (if length xs < n then []
      else let seed = sum_list (take n xs) / real n in seed # smooth_from \<alpha> seed (drop n xs))"

text \<open>Modelled from the spec: the defined values of a column, in order, for the moving
  averages inside the \<open>ta\<close> package (not under src/): history that is undefined is no
  history.
\<close>

fun defined_vals :: "float list \<Rightarrow> real list" where
  "defined_vals [] = []"
| "defined_vals (NaN # ys) = defined_vals ys"
| "defined_vals (Num y # ys) = y # defined_vals ys"

text \<open>Modelled from the spec: EMA(series, n), for the exponential moving averages inside
  \<open>MACD\<close> of the \<open>ta\<close> package (not under src/): the standard exponential smoothing factor \<open>2 / (n + 1)\<close>, seeded with the simple
  average of the first \<open>n\<close> points, undefined until \<open>n\<close> defined points exist.
\<close>

definition ema :: "float list \<Rightarrow> nat \<Rightarrow> float list" where
  "ema ys n = lpad (length ys) (smoothed (2 / (real n + 1)) n (defined_vals ys))"

text \<open>Modelled from the spec: \<open>MACD(close, window_slow, window_fast, window_sign).macd()\<close> of
  the \<open>ta\<close> package (not under src/): \<open>macd = EMA(close, f) - EMA(close, s)\<close>.
\<close>

definition MACD_macd :: "real list \<Rightarrow> int \<Rightarrow> int \<Rightarrow> int \<Rightarrow> float list" where
  "MACD_macd xs window_slow window_fast window_sign =
     map2 fsub (ema (map Num xs) (nat window_fast)) (ema (map Num xs) (nat window_slow))"

text \<open>Modelled from the spec: \<open>MACD(...).macd_signal()\<close> of the \<open>ta\<close> package (not under
  src/): \<open>macd_signal = EMA(macd, g)\<close>, undefined until the slow EMA and then the signal
  EMA have enough history.
\<close>

definition MACD_macd_signal :: "real list \<Rightarrow> int \<Rightarrow> int \<Rightarrow> int \<Rightarrow> float list" where
  "MACD_macd_signal xs window_slow window_fast window_sign =
     ema (MACD_macd xs window_slow window_fast window_sign) (nat window_sign)"

text \<open>Modelled from the spec: \<open>MACD(...).macd_diff()\<close> of the \<open>ta\<close> package (not under
  src/): \<open>macd_hist = macd - macd_signal\<close>.
\<close>

definition MACD_macd_diff :: "real list \<Rightarrow> int \<Rightarrow> int \<Rightarrow> int \<Rightarrow> float list" where
  "MACD_macd_diff xs window_slow window_fast window_sign =
     map2 fsub (MACD_macd xs window_slow window_fast window_sign)
               (MACD_macd_signal xs window_slow window_fast window_sign)"

text \<open>Modelled from the spec: the close-to-close changes, for \<open>RSIIndicator\<close> of the \<open>ta\<close>
  package (not under src/); one change for each bar after the first.
\<close>

definition changes :: "real list \<Rightarrow> real list" where
  "changes xs = map2 (\<lambda>prev cur. cur - prev) xs (tl xs)"

text \<open>Modelled from the spec: the gain and the loss of one change, for \<open>RSIIndicator\<close> of
  the \<open>ta\<close> package (not under src/).
\<close>

definition gain :: "real \<Rightarrow> real" where
  "gain d = max d 0"

definition loss :: "real \<Rightarrow> real" where
  "loss d = max (- d) 0"

text \<open>Modelled from the spec: Wilder's moving average over \<open>w\<close> periods, for \<open>RSIIndicator\<close>
  of the \<open>ta\<close> package (not under src/): the simple average of the first \<open>w\<close> values,
  then \<open>(previous * (w - 1) + x) / w\<close>, which is smoothing with factor \<open>1 / w\<close>.
\<close>

definition wilder :: "nat \<Rightarrow> real list \<Rightarrow> real list" where
  "wilder w xs = smoothed (1 / real w) w xs"

text \<open>Modelled from the spec: the relative strength index of an average gain and an
  average loss, for \<open>RSIIndicator\<close> of the \<open>ta\<close> package (not under src/):
  \<open>100 - 100 / (1 + gain / loss)\<close>, and 100 by the usual convention when the average
  loss is zero.
\<close>

definition rsi_value :: "real \<Rightarrow> real \<Rightarrow> real" where
  "rsi_value avg_gain avg_loss =
     (if avg_loss = 0 then 100 else 100 - 100 / (1 + avg_gain / avg_loss))"

text \<open>Modelled from the spec: \<open>RSIIndicator(close, window).rsi()\<close> of the \<open>ta\<close> package (not
  under src/): Wilder-style RSI over the trailing \<open>w\<close> periods of close-to-close changes,
  undefined until \<open>w\<close> periods of change data exist.
\<close>

definition RSIIndicator_rsi :: "real list \<Rightarrow> int \<Rightarrow> float list" where
  "RSIIndicator_rsi xs window =
     (let ds = changes xs
      in lpad (length xs)
           (map2 rsi_value (wilder (nat window) (map gain ds)) (wilder (nat window) (map loss ds))))"

section \<open>The indicator engine\<close>

text \<open>
  \<open>compute_indicators\<close>, lines 24 to 46.  It copies the frame it is given, assigns the
  six indicator columns to the copy and returns the copy.  No statement of the function
  raises, so every path ends in \<open>Inr\<close>.
\<close>

definition compute_indicators ::
  "heap \<Rightarrow> addr \<Rightarrow> int \<Rightarrow> int \<Rightarrow> int \<Rightarrow> int \<Rightarrow> int \<Rightarrow> int \<Rightarrow> error + (addr \<times> heap)" where
  "compute_indicators h0 df0 sma_fast sma_slow rsi_period macd_fast macd_slow macd_signal =
     (case copy_df h0 df0 of (df, h1) \<Rightarrow>
      let h2 = setitem h1 df (sma_key sma_fast) (SMAIndicator_sma_indicator (close_col h1 df) sma_fast);
          h3 = setitem h2 df (sma_key sma_slow) (SMAIndicator_sma_indicator (close_col h2 df) sma_slow);
          h4 = setitem h3 df ''rsi'' (RSIIndicator_rsi (close_col h3 df) rsi_period);
          c = close_col h4 df;
          h5 = setitem h4 df ''macd'' (MACD_macd c macd_slow macd_fast macd_signal);
          h6 = setitem h5 df ''macd_signal'' (MACD_macd_signal c macd_slow macd_fast macd_signal);
          h7 = setitem h6 df ''macd_hist'' (MACD_macd_diff c macd_slow macd_fast macd_signal)
      in Inr (df, h7))"

text \<open>
  Bars with the given close prices at the timestamps 0, 1, 2, ..., and a heap holding one
  frame of them at address 0, for the worked examples.
\<close>

definition bars_of :: "real list \<Rightarrow> bar list" where
  "bars_of xs =
     map (\<lambda>(t, x). \<lparr>timestamp = int t, open_price = x, high = x, low = x, close = x, volume = 1\<rparr>)
       (enumerate 0 xs)"

definition heap_of :: "real list \<Rightarrow> heap" where
  "heap_of xs = snd (alloc empty_heap \<lparr>bars = bars_of xs, cols = Map.empty\<rparr>)"

section \<open>Properties of the signal classifier\<close>

lemma sma_key_20: "sma_key 20 = ''sma_20''"
  by (simp add: sma_key_def str_int_def str_nat.simps digit_char_def)

lemma sma_key_50: "sma_key 50 = ''sma_50''"
  by (simp add: sma_key_def str_int_def str_nat.simps digit_char_def)

lemma example_row_lookups:
  "example_row f s r m g (sma_key 20) = Some f"
  "example_row f s r m g (sma_key 50) = Some s"
  "example_row f s r m g ''rsi'' = Some r"
  "example_row f s r m g ''macd'' = Some m"
  "example_row f s r m g ''macd_signal'' = Some g"
  "example_row f s r m g ''close'' = Some (Num 100)"
  by (simp_all add: example_row_def sma_key_20 sma_key_50)

lemma generate_signal_present:
  assumes "latest (sma_key sma_fast) = Some f" "latest (sma_key sma_slow) = Some s"
    "latest ''rsi'' = Some r" "latest ''macd'' = Some m" "latest ''macd_signal'' = Some g"
    "latest ''close'' = Some c"
  shows "generate_signal latest sma_fast sma_slow rsi_upper rsi_lower =
    Inr \<lparr>overall_signal = aggregate (cast_votes f s r rsi_upper rsi_lower m g),
         details = map_of
           [(''sma_bias'', Str (fst (sma_block f s []))),
            (''rsi_bias'', Str (fst (rsi_block r rsi_upper rsi_lower (snd (sma_block f s []))))),
            (''macd_bias'', Str (fst (macd_block m g
                (snd (rsi_block r rsi_upper rsi_lower (snd (sma_block f s []))))))),
            (''price'', Float c), (''rsi'', Float r), (''macd'', Float m),
            (''macd_signal'', Float g)]\<rparr>"
  using assms
  by (simp add: generate_signal_def getitem_def cast_votes_def split: prod.splits)

lemma generate_signal_example:
  "generate_signal (example_row f s r m g) 20 50 u l =
    Inr \<lparr>overall_signal = aggregate (cast_votes f s r u l m g),
         details = map_of
           [(''sma_bias'', Str (fst (sma_block f s []))),
            (''rsi_bias'', Str (fst (rsi_block r u l (snd (sma_block f s []))))),
            (''macd_bias'', Str (fst (macd_block m g
                (snd (rsi_block r u l (snd (sma_block f s []))))))),
            (''price'', Float (Num 100)), (''rsi'', Float r), (''macd'', Float m),
            (''macd_signal'', Float g)]\<rparr>"
  by (rule generate_signal_present) (rule example_row_lookups)+

lemma generate_signal_cases:
  assumes "generate_signal latest sma_fast sma_slow rsi_upper rsi_lower = Inr v"
  obtains f s r m g c where
    "latest (sma_key sma_fast) = Some f" "latest (sma_key sma_slow) = Some s"
    "latest ''rsi'' = Some r" "latest ''macd'' = Some m" "latest ''macd_signal'' = Some g"
    "latest ''close'' = Some c"
  using assms
  by (auto simp: generate_signal_def getitem_def split: option.splits prod.splits)

lemma aggregate_range:
  "aggregate vs \<in> {''strong_buy'', ''buy'', ''neutral'', ''sell'', ''strong_sell''}"
  by (simp add: aggregate_def Let_def)

lemma fgt_irrefl [simp]: "\<not> fgt x x"
  by (cases x) simp_all

lemma flt_irrefl [simp]: "\<not> flt x x"
  by (cases x) simp_all

lemmas block_defs = cast_votes_def sma_block_def rsi_block_def macd_block_def

text \<open>
  C1: \<open>generate_signal\<close> aggregates only the cast votes.  On a row that carries every
  label the function reads, it returns a verdict; with no vote cast the overall signal
  is neutral, and otherwise the sum of the cast votes decides: at least 2 is strong_buy,
  1 is buy, at most -2 is strong_sell, -1 is sell, and 0 with a vote cast is neutral.
\<close>

theorem generate_signal_aggregation:
  assumes "latest (sma_key sma_fast) = Some f" "latest (sma_key sma_slow) = Some s"
    "latest ''rsi'' = Some r" "latest ''macd'' = Some m" "latest ''macd_signal'' = Some g"
    "latest ''close'' = Some c"
  shows "\<exists>v. generate_signal latest sma_fast sma_slow rsi_upper rsi_lower = Inr v \<and>
    (let votes = cast_votes f s r rsi_upper rsi_lower m g; score = sum_list votes in
       (votes = [] \<longrightarrow> overall_signal v = ''neutral'') \<and>
       (votes \<noteq> [] \<and> score \<ge> 2 \<longrightarrow> overall_signal v = ''strong_buy'') \<and>
       (votes \<noteq> [] \<and> score = 1 \<longrightarrow> overall_signal v = ''buy'') \<and>
       (votes \<noteq> [] \<and> score \<le> - 2 \<longrightarrow> overall_signal v = ''strong_sell'') \<and>
       (votes \<noteq> [] \<and> score = - 1 \<longrightarrow> overall_signal v = ''sell'') \<and>
       (votes \<noteq> [] \<and> score = 0 \<longrightarrow> overall_signal v = ''neutral''))"
  unfolding generate_signal_present [OF assms]
  by (simp add: aggregate_def Let_def)

theorem generate_signal_aggregation_witness:
  "(\<exists>v. generate_signal (example_row NaN (Num 1) (Num 50) (Num 1) (Num 1)) 20 50 (Num 70) (Num 30) = Inr v
       \<and> overall_signal v = ''neutral'') \<and>
   (\<exists>v. generate_signal (example_row (Num 2) (Num 1) (Num 20) (Num 1) (Num 0)) 20 50 (Num 70) (Num 30) = Inr v
       \<and> overall_signal v = ''strong_buy'') \<and>
   (\<exists>v. generate_signal (example_row (Num 2) (Num 1) (Num 50) (Num 0) (Num 0)) 20 50 (Num 70) (Num 30) = Inr v
       \<and> overall_signal v = ''buy'') \<and>
   (\<exists>v. generate_signal (example_row (Num 1) (Num 2) (Num 50) (Num 0) (Num 1)) 20 50 (Num 70) (Num 30) = Inr v
       \<and> overall_signal v = ''strong_sell'') \<and>
   (\<exists>v. generate_signal (example_row (Num 1) (Num 1) (Num 80) (Num 0) (Num 0)) 20 50 (Num 70) (Num 30) = Inr v
       \<and> overall_signal v = ''sell'') \<and>
   (\<exists>v. generate_signal (example_row (Num 2) (Num 1) (Num 50) (Num 0) (Num 1)) 20 50 (Num 70) (Num 30) = Inr v
       \<and> overall_signal v = ''neutral'')"
  using
    generate_signal_aggregation [OF example_row_lookups [of NaN "Num 1" "Num 50" "Num 1" "Num 1"], where rsi_upper = "Num 70" and rsi_lower = "Num 30"]
    generate_signal_aggregation [OF example_row_lookups [of "Num 2" "Num 1" "Num 20" "Num 1" "Num 0"], where rsi_upper = "Num 70" and rsi_lower = "Num 30"]
    generate_signal_aggregation [OF example_row_lookups [of "Num 2" "Num 1" "Num 50" "Num 0" "Num 0"], where rsi_upper = "Num 70" and rsi_lower = "Num 30"]
    generate_signal_aggregation [OF example_row_lookups [of "Num 1" "Num 2" "Num 50" "Num 0" "Num 1"], where rsi_upper = "Num 70" and rsi_lower = "Num 30"]
    generate_signal_aggregation [OF example_row_lookups [of "Num 1" "Num 1" "Num 80" "Num 0" "Num 0"], where rsi_upper = "Num 70" and rsi_lower = "Num 30"]
    generate_signal_aggregation [OF example_row_lookups [of "Num 2" "Num 1" "Num 50" "Num 0" "Num 1"], where rsi_upper = "Num 70" and rsi_lower = "Num 30"]
  by (simp add: block_defs)

text \<open>
  C3: an indicator with an undefined field casts no vote and is reported neutral.  The
  list of cast votes is then exactly the votes of the other indicators, in order; it
  never holds a 0, so an excluded vote is absent rather than counted as zero.
\<close>

theorem undefined_fields_cast_no_vote:
  assumes "latest (sma_key sma_fast) = Some f" "latest (sma_key sma_slow) = Some s"
    "latest ''rsi'' = Some r" "latest ''macd'' = Some m" "latest ''macd_signal'' = Some g"
    "latest ''close'' = Some c"
  shows "\<exists>v. generate_signal latest sma_fast sma_slow rsi_upper rsi_lower = Inr v \<and>
    overall_signal v = aggregate (cast_votes f s r rsi_upper rsi_lower m g) \<and>
    0 \<notin> set (cast_votes f s r rsi_upper rsi_lower m g) \<and>
    (isnan f \<or> isnan s \<longrightarrow>
       details v ''sma_bias'' = Some (Str ''neutral'') \<and>
       cast_votes f s r rsi_upper rsi_lower m g =
         snd (rsi_block r rsi_upper rsi_lower []) @ snd (macd_block m g [])) \<and>
    (isnan r \<longrightarrow>
       details v ''rsi_bias'' = Some (Str ''neutral'') \<and>
       cast_votes f s r rsi_upper rsi_lower m g =
         snd (sma_block f s []) @ snd (macd_block m g [])) \<and>
    (isnan m \<or> isnan g \<longrightarrow>
       details v ''macd_bias'' = Some (Str ''neutral'') \<and>
       cast_votes f s r rsi_upper rsi_lower m g =
         snd (sma_block f s []) @ snd (rsi_block r rsi_upper rsi_lower []))"
  unfolding generate_signal_present [OF assms]
  by (simp add: block_defs)

theorem undefined_fields_cast_no_vote_witness:
  "(\<exists>v. generate_signal (example_row NaN (Num 1) (Num 80) (Num 1) (Num 0)) 20 50 (Num 70) (Num 30) = Inr v \<and>
      overall_signal v = ''neutral'' \<and> details v ''sma_bias'' = Some (Str ''neutral'') \<and>
      cast_votes NaN (Num 1) (Num 80) (Num 70) (Num 30) (Num 1) (Num 0) = [- 1, 1]) \<and>
   (\<exists>v. generate_signal (example_row (Num 2) (Num 1) NaN (Num 1) (Num 0)) 20 50 (Num 70) (Num 30) = Inr v \<and>
      overall_signal v = ''strong_buy'' \<and> details v ''rsi_bias'' = Some (Str ''neutral'') \<and>
      cast_votes (Num 2) (Num 1) NaN (Num 70) (Num 30) (Num 1) (Num 0) = [1, 1]) \<and>
   (\<exists>v. generate_signal (example_row (Num 2) (Num 1) (Num 80) (Num 1) NaN) 20 50 (Num 70) (Num 30) = Inr v \<and>
      overall_signal v = ''neutral'' \<and> details v ''macd_bias'' = Some (Str ''neutral'') \<and>
      cast_votes (Num 2) (Num 1) (Num 80) (Num 70) (Num 30) (Num 1) NaN = [1, - 1])"
  using
    undefined_fields_cast_no_vote [OF example_row_lookups [of NaN "Num 1" "Num 80" "Num 1" "Num 0"], where rsi_upper = "Num 70" and rsi_lower = "Num 30"]
    undefined_fields_cast_no_vote [OF example_row_lookups [of "Num 2" "Num 1" NaN "Num 1" "Num 0"], where rsi_upper = "Num 70" and rsi_lower = "Num 30"]
    undefined_fields_cast_no_vote [OF example_row_lookups [of "Num 2" "Num 1" "Num 80" "Num 1" NaN], where rsi_upper = "Num 70" and rsi_lower = "Num 30"]
  by (simp add: block_defs aggregate_def)

text \<open>
  C4: with defined values, \<open>sma_fast = sma_slow\<close> gives the SMA bias neutral and no SMA
  vote, and \<open>macd = macd_signal\<close> gives the MACD bias neutral and no MACD vote: the list
  of cast votes is that of the other two indicators.
\<close>

theorem exact_ties_are_neutral:
  assumes "latest (sma_key sma_fast) = Some f" "latest (sma_key sma_slow) = Some s"
    "latest ''rsi'' = Some r" "latest ''macd'' = Some m" "latest ''macd_signal'' = Some g"
    "latest ''close'' = Some c"
  shows "\<exists>v. generate_signal latest sma_fast sma_slow rsi_upper rsi_lower = Inr v \<and>
    overall_signal v = aggregate (cast_votes f s r rsi_upper rsi_lower m g) \<and>
    (\<not> isnan f \<and> f = s \<longrightarrow>
       details v ''sma_bias'' = Some (Str ''neutral'') \<and>
       cast_votes f s r rsi_upper rsi_lower m g =
         snd (rsi_block r rsi_upper rsi_lower []) @ snd (macd_block m g [])) \<and>
    (\<not> isnan m \<and> m = g \<longrightarrow>
       details v ''macd_bias'' = Some (Str ''neutral'') \<and>
       cast_votes f s r rsi_upper rsi_lower m g =
         snd (sma_block f s []) @ snd (rsi_block r rsi_upper rsi_lower []))"
  unfolding generate_signal_present [OF assms]
  by (simp add: block_defs)

theorem exact_ties_are_neutral_witness:
  "(\<exists>v. generate_signal (example_row (Num 5) (Num 5) (Num 20) (Num 1) (Num 0)) 20 50 (Num 70) (Num 30) = Inr v \<and>
      overall_signal v = ''strong_buy'' \<and> details v ''sma_bias'' = Some (Str ''neutral'') \<and>
      cast_votes (Num 5) (Num 5) (Num 20) (Num 70) (Num 30) (Num 1) (Num 0) = [1, 1]) \<and>
   (\<exists>v. generate_signal (example_row (Num 1) (Num 2) (Num 50) (Num 3) (Num 3)) 20 50 (Num 70) (Num 30) = Inr v \<and>
      overall_signal v = ''sell'' \<and> details v ''macd_bias'' = Some (Str ''neutral'') \<and>
      cast_votes (Num 1) (Num 2) (Num 50) (Num 70) (Num 30) (Num 3) (Num 3) = [- 1])"
  using
    exact_ties_are_neutral [OF example_row_lookups [of "Num 5" "Num 5" "Num 20" "Num 1" "Num 0"], where rsi_upper = "Num 70" and rsi_lower = "Num 30"]
    exact_ties_are_neutral [OF example_row_lookups [of "Num 1" "Num 2" "Num 50" "Num 3" "Num 3"], where rsi_upper = "Num 70" and rsi_lower = "Num 30"]
  by (simp add: block_defs aggregate_def)

text \<open>
  C10: on a row whose five indicator fields are all NaN, \<open>generate_signal\<close> does not
  raise: it returns the overall signal neutral, the three bias labels neutral, and NaN
  for the raw values rsi, macd and macd_signal of the details.
\<close>

theorem all_undefined_row_is_neutral:
  assumes "latest (sma_key sma_fast) = Some NaN" "latest (sma_key sma_slow) = Some NaN"
    "latest ''rsi'' = Some NaN" "latest ''macd'' = Some NaN" "latest ''macd_signal'' = Some NaN"
    "latest ''close'' = Some c"
  shows "generate_signal latest sma_fast sma_slow rsi_upper rsi_lower =
    Inr \<lparr>overall_signal = ''neutral'',
         details = map_of
           [(''sma_bias'', Str ''neutral''), (''rsi_bias'', Str ''neutral''),
            (''macd_bias'', Str ''neutral''), (''price'', Float c),
            (''rsi'', Float NaN), (''macd'', Float NaN), (''macd_signal'', Float NaN)]\<rparr>"
  unfolding generate_signal_present [OF assms]
  by (simp add: block_defs aggregate_def)

theorem all_undefined_row_is_neutral_witness:
  "generate_signal (example_row NaN NaN NaN NaN NaN) 20 50 (Num 70) (Num 30) =
    Inr \<lparr>overall_signal = ''neutral'',
         details = map_of
           [(''sma_bias'', Str ''neutral''), (''rsi_bias'', Str ''neutral''),
            (''macd_bias'', Str ''neutral''), (''price'', Float (Num 100)),
            (''rsi'', Float NaN), (''macd'', Float NaN), (''macd_signal'', Float NaN)]\<rparr>"
  by (rule all_undefined_row_is_neutral [OF example_row_lookups])

text \<open>The five labels of the overall signal are all attained.\<close>

lemma overall_attained:
  "aggregate (cast_votes (Num 2) (Num 1) (Num 20) (Num 70) (Num 30) (Num 1) (Num 0)) = ''strong_buy''"
  "aggregate (cast_votes (Num 2) (Num 1) (Num 50) (Num 70) (Num 30) (Num 0) (Num 0)) = ''buy''"
  "aggregate (cast_votes NaN NaN NaN (Num 70) (Num 30) NaN NaN) = ''neutral''"
  "aggregate (cast_votes (Num 1) (Num 2) (Num 50) (Num 70) (Num 30) (Num 0) (Num 0)) = ''sell''"
  "aggregate (cast_votes (Num 1) (Num 2) (Num 50) (Num 70) (Num 30) (Num 0) (Num 1)) = ''strong_sell''"
  by (simp_all add: block_defs aggregate_def)

lemma example_overall:
  "\<exists>v. generate_signal (example_row f s r m g) 20 50 u l = Inr v \<and>
     overall_signal v = aggregate (cast_votes f s r u l m g)"
  by (simp add: generate_signal_example)

lemma overall_of_result:
  assumes "generate_signal latest sma_fast sma_slow rsi_upper rsi_lower = Inr v"
  shows "\<exists>votes. overall_signal v = aggregate votes"
proof -
  from assms obtain f s r m g c where
    "latest (sma_key sma_fast) = Some f" "latest (sma_key sma_slow) = Some s"
    "latest ''rsi'' = Some r" "latest ''macd'' = Some m" "latest ''macd_signal'' = Some g"
    "latest ''close'' = Some c"
    by (rule generate_signal_cases)
  from generate_signal_present [OF this, of rsi_upper rsi_lower] assms
  have "overall_signal v = aggregate (cast_votes f s r rsi_upper rsi_lower m g)"
    by auto
  then show ?thesis ..
qed

lemma overall_values:
  "{lbl. \<exists>latest sma_fast sma_slow rsi_upper rsi_lower v.
      generate_signal latest sma_fast sma_slow rsi_upper rsi_lower = Inr v \<and> overall_signal v = lbl}
   = {''strong_buy'', ''buy'', ''neutral'', ''sell'', ''strong_sell''}" (is "?L = ?R")
proof (rule set_eqI)
  fix lbl
  show "lbl \<in> ?L \<longleftrightarrow> lbl \<in> ?R"
  proof
    assume "lbl \<in> ?L"
    then obtain latest sma_fast sma_slow rsi_upper rsi_lower v where
      "generate_signal latest sma_fast sma_slow rsi_upper rsi_lower = Inr v"
      and lbl: "overall_signal v = lbl"
      by blast
    then obtain votes where "overall_signal v = aggregate votes"
      using overall_of_result by blast
    with lbl show "lbl \<in> ?R"
      using aggregate_range [of votes] by simp
  next
    assume "lbl \<in> ?R"
    then consider "lbl = ''strong_buy''" | "lbl = ''buy''" | "lbl = ''neutral''"
      | "lbl = ''sell''" | "lbl = ''strong_sell''"
      by auto
    then show "lbl \<in> ?L"
    proof cases
      case 1
      from example_overall [of "Num 2" "Num 1" "Num 20" "Num 1" "Num 0" "Num 70" "Num 30"]
      show ?thesis unfolding 1 overall_attained by blast
    next
      case 2
      from example_overall [of "Num 2" "Num 1" "Num 50" "Num 0" "Num 0" "Num 70" "Num 30"]
      show ?thesis unfolding 2 overall_attained by blast
    next
      case 3
      from example_overall [of NaN NaN NaN NaN NaN "Num 70" "Num 30"]
      show ?thesis unfolding 3 overall_attained by blast
    next
      case 4
      from example_overall [of "Num 1" "Num 2" "Num 50" "Num 0" "Num 0" "Num 70" "Num 30"]
      show ?thesis unfolding 4 overall_attained by blast
    next
      case 5
      from example_overall [of "Num 1" "Num 2" "Num 50" "Num 0" "Num 1" "Num 70" "Num 30"]
      show ?thesis unfolding 5 overall_attained by blast
    qed
  qed
qed

text \<open>
  C5, as amended: the overall signal of a verdict is one of five categories, strong_buy,
  buy, neutral, sell and strong_sell.
\<close>

theorem overall_signal_five_categories:
  assumes "generate_signal latest sma_fast sma_slow rsi_upper rsi_lower = Inr v"
  shows "overall_signal v \<in> {''strong_buy'', ''buy'', ''neutral'', ''sell'', ''strong_sell''}"
proof -
  from assms obtain votes where "overall_signal v = aggregate votes"
    using overall_of_result by blast
  then show ?thesis
    using aggregate_range [of votes] by simp
qed

theorem overall_signal_five_categories_witness:
  "\<exists>v. generate_signal (example_row (Num 1) (Num 2) (Num 50) (Num 0) (Num 0)) 20 50 (Num 70) (Num 30)
       = Inr v \<and>
     overall_signal v \<in> {''strong_buy'', ''buy'', ''neutral'', ''sell'', ''strong_sell''}"
proof -
  obtain v where v:
    "generate_signal (example_row (Num 1) (Num 2) (Num 50) (Num 0) (Num 0)) 20 50 (Num 70) (Num 30)
      = Inr v"
    using example_overall by blast
  from overall_signal_five_categories [OF v] v show ?thesis by blast
qed

text \<open>
  The labels that the overall signal takes, over all rows and configurations, are not
  seven in number: they are the five above.
\<close>

theorem overall_signal_not_seven_categories:
  "card {lbl. \<exists>latest sma_fast sma_slow rsi_upper rsi_lower v.
      generate_signal latest sma_fast sma_slow rsi_upper rsi_lower = Inr v \<and> overall_signal v = lbl}
   = 5 \<and>
   card {lbl. \<exists>latest sma_fast sma_slow rsi_upper rsi_lower v.
      generate_signal latest sma_fast sma_slow rsi_upper rsi_lower = Inr v \<and> overall_signal v = lbl}
   \<noteq> 7"
  unfolding overall_values by simp

section \<open>The column labels\<close>

lemma str_nat_nonempty: "str_nat n \<noteq> []"
  by (subst str_nat.simps) simp

lemma digit_char_inj: "a < 10 \<Longrightarrow> b < 10 \<Longrightarrow> digit_char a = digit_char b \<Longrightarrow> a = b"
proof -
  assume "a < 10" "b < 10"
  then have "a \<in> {0,1,2,3,4,5,6,7,8,9}" "b \<in> {0,1,2,3,4,5,6,7,8,9}" by auto
  moreover assume "digit_char a = digit_char b"
  ultimately show ?thesis
    by (auto simp: digit_char_def)
qed

lemma str_nat_inj: "str_nat n = str_nat m \<Longrightarrow> n = m"
proof (induction n arbitrary: m rule: str_nat.induct)
  case (1 n)
  show ?case
  proof (cases "n < 10")
    case True
    then have n: "str_nat n = [digit_char n]" by (subst str_nat.simps) simp
    show ?thesis
    proof (cases "m < 10")
      case True
      then have "str_nat m = [digit_char m]" by (subst str_nat.simps) simp
      with n "1.prems" \<open>n < 10\<close> True show ?thesis by (simp add: digit_char_inj)
    next
      case False
      then have "str_nat m = str_nat (m div 10) @ [digit_char (m mod 10)]"
        by (subst str_nat.simps) simp
      with n "1.prems" str_nat_nonempty [of "m div 10"] show ?thesis by simp
    qed
  next
    case False
    then have n: "str_nat n = str_nat (n div 10) @ [digit_char (n mod 10)]"
      by (subst str_nat.simps) simp
    show ?thesis
    proof (cases "m < 10")
      case True
      then have "str_nat m = [digit_char m]" by (subst str_nat.simps) simp
      with n "1.prems" str_nat_nonempty [of "n div 10"] show ?thesis by simp
    next
      case m: False
      then have "str_nat m = str_nat (m div 10) @ [digit_char (m mod 10)]"
        by (subst str_nat.simps) simp
      with n "1.prems" have "str_nat (n div 10) = str_nat (m div 10)"
        and d: "digit_char (n mod 10) = digit_char (m mod 10)" by simp_all
      with "1.IH" [OF False] have "n div 10 = m div 10" by simp
      moreover from d have "n mod 10 = m mod 10" by (simp add: digit_char_inj)
      ultimately show ?thesis by (metis div_mult_mod_eq)
    qed
  qed
qed

lemma digit_char_not_minus: "d < 10 \<Longrightarrow> digit_char d \<noteq> CHR ''-''"
proof -
  assume "d < 10"
  then have "d \<in> {0,1,2,3,4,5,6,7,8,9}" by auto
  then show ?thesis by (auto simp: digit_char_def)
qed

lemma str_nat_no_minus: "CHR ''-'' \<notin> set (str_nat n)"
proof (induction n rule: str_nat.induct)
  case (1 n)
  show ?case
  proof (cases "n < 10")
    case True
    then show ?thesis
      using digit_char_not_minus [of n]
      by (subst str_nat.simps) auto
  next
    case False
    with "1.IH" show ?thesis
      using digit_char_not_minus [of "n mod 10"]
      by (subst str_nat.simps) auto
  qed
qed

lemma str_int_inj: "str_int i = str_int j \<Longrightarrow> i = j"
proof -
  assume eq: "str_int i = str_int j"
  have neg_pos: "CHR ''-'' # str_nat a \<noteq> str_nat b" for a b
    using str_nat_no_minus [of b] by (metis list.set_intros(1))
  show ?thesis
  proof (cases "i < 0")
    case i: True
    show ?thesis
    proof (cases "j < 0")
      case True
      with i eq have "nat (- i) = nat (- j)" by (simp add: str_int_def str_nat_inj)
      with i True show ?thesis by simp
    next
      case False
      with i eq neg_pos show ?thesis by (simp add: str_int_def)
    qed
  next
    case i: False
    show ?thesis
    proof (cases "j < 0")
      case True
      with i eq neg_pos [of "nat (- j)" "nat i"] show ?thesis by (simp add: str_int_def)
    next
      case False
      with i eq have "nat i = nat j" by (simp add: str_int_def str_nat_inj)
      with i False show ?thesis by simp
    qed
  qed
qed

lemma sma_key_inj: "sma_key a = sma_key b \<longleftrightarrow> a = b"
  by (auto simp: sma_key_def dest: str_int_inj)

lemma sma_key_fresh:
  "sma_key n \<noteq> ''rsi''" "sma_key n \<noteq> ''macd''" "sma_key n \<noteq> ''macd_signal''"
  "sma_key n \<noteq> ''macd_hist''"
  "sma_key n \<notin> {''timestamp'', ''open'', ''high'', ''low'', ''close'', ''volume''}"
  by (simp_all add: sma_key_def)

lemma compute_indicators_result:
  assumes "compute_indicators h0 df0 sma_fast sma_slow rsi_period macd_fast macd_slow macd_signal
    = Inr (df, h)"
  defines "xs \<equiv> map close (bars (objs h0 df0))"
  shows "df = next_addr h0"
    and "next_addr h = Suc (next_addr h0)"
    and "\<And>a. a \<noteq> df \<Longrightarrow> objs h a = objs h0 a"
    and "bars (objs h df) = bars (objs h0 df0)"
    and "cols (objs h df) (sma_key sma_fast) = Some (SMAIndicator_sma_indicator xs sma_fast)"
    and "cols (objs h df) (sma_key sma_slow) = Some (SMAIndicator_sma_indicator xs sma_slow)"
    and "cols (objs h df) ''rsi'' = Some (RSIIndicator_rsi xs rsi_period)"
    and "cols (objs h df) ''macd'' = Some (MACD_macd xs macd_slow macd_fast macd_signal)"
    and "cols (objs h df) ''macd_signal'' = Some (MACD_macd_signal xs macd_slow macd_fast macd_signal)"
    and "cols (objs h df) ''macd_hist'' = Some (MACD_macd_diff xs macd_slow macd_fast macd_signal)"
  using assms
  by (auto simp: compute_indicators_def copy_df_def alloc_def setitem_def close_col_def Let_def
      sma_key_fresh sma_key_inj)

lemma compute_indicators_returns:
  "\<exists>h. compute_indicators h0 df0 sma_fast sma_slow rsi_period macd_fast macd_slow macd_signal
    = Inr (next_addr h0, h)"
  by (simp add: compute_indicators_def copy_df_def alloc_def Let_def)

section \<open>Properties of the indicators\<close>

lemma length_smooth_from [simp]: "length (smooth_from \<alpha> p xs) = length xs"
  by (induction xs arbitrary: p) (simp_all add: Let_def)

lemma length_smoothed: "0 < n \<Longrightarrow> length (smoothed \<alpha> n xs) \<le> length xs"
  by (auto simp: smoothed_def Let_def)

lemma length_defined_vals: "length (defined_vals ys) \<le> length ys"
  by (induction ys rule: defined_vals.induct) simp_all

lemma length_lpad: "length vs \<le> n \<Longrightarrow> length (lpad n vs) = n"
  by (simp add: lpad_def)

lemma length_ema: "0 < n \<Longrightarrow> length (ema ys n) = length ys"
  unfolding ema_def
  by (rule length_lpad) (meson length_smoothed length_defined_vals order_trans)

lemma length_SMA [simp]: "length (SMAIndicator_sma_indicator xs w) = length xs"
  by (simp add: SMAIndicator_sma_indicator_def)

lemma length_MACD_macd:
  "0 < window_fast \<Longrightarrow> 0 < window_slow \<Longrightarrow>
   length (MACD_macd xs window_slow window_fast window_sign) = length xs"
  by (simp add: MACD_macd_def length_ema)

lemma length_MACD_macd_signal:
  "0 < window_fast \<Longrightarrow> 0 < window_slow \<Longrightarrow> 0 < window_sign \<Longrightarrow>
   length (MACD_macd_signal xs window_slow window_fast window_sign) = length xs"
  by (simp add: MACD_macd_signal_def length_ema length_MACD_macd)

lemma length_MACD_macd_diff:
  "0 < window_fast \<Longrightarrow> 0 < window_slow \<Longrightarrow> 0 < window_sign \<Longrightarrow>
   length (MACD_macd_diff xs window_slow window_fast window_sign) = length xs"
  by (simp add: MACD_macd_diff_def length_MACD_macd_signal length_MACD_macd)

lemma length_changes [simp]: "length (changes xs) = length xs - 1"
  by (simp add: changes_def)

lemma length_RSI: "0 < window \<Longrightarrow> length (RSIIndicator_rsi xs window) = length xs"
proof -
  assume w: "0 < window"
  then have "length (wilder (nat window) (map gain (changes xs))) \<le> length xs"
    using length_smoothed [of "nat window" "1 / real (nat window)" "map gain (changes xs)"]
    by (simp add: wilder_def)
  then show ?thesis
    by (simp add: RSIIndicator_rsi_def Let_def length_lpad)
qed

subsection \<open>Bounds of the relative strength index\<close>

lemma smooth_from_nonneg:
  assumes "0 \<le> \<alpha>" "\<alpha> \<le> 1"
  shows "0 \<le> p \<Longrightarrow> \<forall>x\<in>set xs. 0 \<le> x \<Longrightarrow> \<forall>y\<in>set (smooth_from \<alpha> p xs). 0 \<le> y"
proof (induction xs arbitrary: p)
  case Nil
  then show ?case by simp
next
  case (Cons x xs)
  from Cons.prems have x: "0 \<le> x" and xs: "\<forall>x\<in>set xs. 0 \<le> x"
    by simp_all
  from assms(1) x have "0 \<le> \<alpha> * x"
    by (rule mult_nonneg_nonneg)
  moreover from assms(2) Cons.prems(1) have "0 \<le> (1 - \<alpha>) * p"
    by (intro mult_nonneg_nonneg) simp_all
  ultimately have y: "0 \<le> \<alpha> * x + (1 - \<alpha>) * p"
    by (rule add_nonneg_nonneg)
  from Cons.IH [OF y xs] y show ?case
    by (simp add: Let_def)
qed

lemma smoothed_nonneg:
  assumes "0 \<le> \<alpha>" "\<alpha> \<le> 1" "\<forall>x\<in>set xs. 0 \<le> x"
  shows "\<forall>y\<in>set (smoothed \<alpha> n xs). 0 \<le> y"
proof -
  have "\<forall>x\<in>set (take n xs). 0 \<le> x" "\<forall>x\<in>set (drop n xs). 0 \<le> x"
    using assms(3) by (meson in_set_takeD in_set_dropD)+
  then have "0 \<le> sum_list (take n xs)"
    and rest: "\<forall>x\<in>set (drop n xs). 0 \<le> x"
    by (simp_all add: sum_list_nonneg)
  then have seed: "0 \<le> sum_list (take n xs) / real n"
    by simp
  from smooth_from_nonneg [OF assms(1,2) seed rest] seed show ?thesis
    by (simp add: smoothed_def Let_def)
qed

lemma wilder_nonneg:
  assumes "0 < w" "\<forall>x\<in>set xs. 0 \<le> x"
  shows "\<forall>y\<in>set (wilder w xs). 0 \<le> y"
  unfolding wilder_def
proof (rule smoothed_nonneg)
  show "0 \<le> 1 / real w" by simp
  from assms(1) show "1 / real w \<le> 1" by simp
  show "\<forall>x\<in>set xs. 0 \<le> x" by fact
qed

lemma rsi_value_bounds:
  assumes "0 \<le> g" "0 \<le> l"
  shows "0 \<le> rsi_value g l \<and> rsi_value g l \<le> 100"
proof (cases "l = 0")
  case True
  then show ?thesis by (simp add: rsi_value_def)
next
  case False
  with assms have l: "0 < l" by simp
  with assms have t: "1 \<le> 1 + g / l" by simp
  then have "100 / (1 + g / l) \<le> 100 / 1"
    by (intro divide_left_mono) simp_all
  moreover from t have "0 \<le> 100 / (1 + g / l)" by simp
  ultimately show ?thesis using False by (simp add: rsi_value_def)
qed

lemma lpad_nth_Num:
  assumes "i < length (lpad n vs)" "lpad n vs ! i = Num v"
  shows "v \<in> set vs"
proof -
  from assms(1) have "lpad n vs ! i \<in> set (lpad n vs)" by (rule nth_mem)
  with assms(2) have "Num v \<in> set (replicate (n - length vs) NaN) \<union> Num ` set vs"
    by (simp add: lpad_def)
  then show ?thesis by auto
qed

lemma RSI_bounds:
  assumes "0 < window" "i < length (RSIIndicator_rsi xs window)"
    "RSIIndicator_rsi xs window ! i = Num v"
  shows "0 \<le> v \<and> v \<le> 100"
proof -
  let ?ds = "changes xs"
  let ?g = "wilder (nat window) (map gain ?ds)"
  let ?l = "wilder (nat window) (map loss ?ds)"
  from assms(2,3) have "v \<in> set (map2 rsi_value ?g ?l)"
    unfolding RSIIndicator_rsi_def Let_def by (rule lpad_nth_Num)
  then obtain a b where ab: "(a, b) \<in> set (zip ?g ?l)" and v: "v = rsi_value a b"
    by auto
  from ab have "a \<in> set ?g" "b \<in> set ?l"
    by (meson set_zip_leftD set_zip_rightD)+
  moreover from assms(1) have "0 < nat window" by simp
  moreover have "\<forall>x\<in>set (map gain ?ds). 0 \<le> x" "\<forall>x\<in>set (map loss ?ds). 0 \<le> x"
    by (simp_all add: gain_def loss_def)
  ultimately have "0 \<le> a" "0 \<le> b"
    using wilder_nonneg [of "nat window" "map gain ?ds"] wilder_nonneg [of "nat window" "map loss ?ds"]
    by blast+
  with v show ?thesis by (simp add: rsi_value_bounds)
qed

section \<open>Properties of the indicator engine\<close>

lemma heap_of_simps [simp]:
  "next_addr (heap_of xs) = 1"
  "objs (heap_of xs) 0 = \<lparr>bars = bars_of xs, cols = Map.empty\<rparr>"
  by (simp_all add: heap_of_def alloc_def empty_heap_def)

lemma close_bars_of [simp]: "map close (bars_of xs) = xs"
  by (simp add: bars_of_def case_prod_unfold comp_def)

lemma length_bars_of [simp]: "length (bars_of xs) = length xs"
  by (simp add: bars_of_def)

lemma example_rsi:
  "RSIIndicator_rsi [1, 2, 3, 2, 5, 7] 2 = [NaN, NaN, Num 100, Num 50, Num (175 / 2), Num (375 / 4)]"
  by (simp add: RSIIndicator_rsi_def changes_def wilder_def smoothed_def gain_def loss_def
      rsi_value_def lpad_def Let_def)

lemma example_macd:
  "MACD_macd [1, 2, 3, 2, 5, 7] 3 2 2 = [NaN, NaN, Num (1 / 2), Num (1 / 6), Num (5 / 9), Num (83 / 108)]"
  by (simp add: MACD_macd_def ema_def smoothed_def lpad_def Let_def)

lemma example_macd_signal:
  "MACD_macd_signal [1, 2, 3, 2, 5, 7] 3 2 2 =
    [NaN, NaN, NaN, Num (1 / 3), Num (13 / 27), Num (109 / 162)]"
  by (simp add: MACD_macd_signal_def example_macd ema_def smoothed_def lpad_def Let_def)

lemma example_macd_diff:
  "MACD_macd_diff [1, 2, 3, 2, 5, 7] 3 2 2 =
    [NaN, NaN, NaN, Num (- (1 / 6)), Num (2 / 27), Num (31 / 324)]"
  by (simp add: MACD_macd_diff_def example_macd example_macd_signal)

lemma example_run:
  obtains h where
    "compute_indicators (heap_of [1, 2, 3, 2, 5, 7]) 0 2 3 2 2 3 2 = Inr (1, h)"
  using compute_indicators_returns [of "heap_of [1, 2, 3, 2, 5, 7]" 0 2 3 2 2 3 2] by auto

text \<open>
  On the empty series, with the default configuration, \<open>compute_indicators\<close> does not
  fail with \<open>InsufficientDataError\<close>: it returns a table of no rows.
\<close>

theorem empty_series_is_not_an_error:
  "compute_indicators (heap_of []) 0 20 50 14 12 26 9 \<noteq> Inl InsufficientDataError \<and>
   map_sum id (\<lambda>(df, h). length (bars (objs h df))) (compute_indicators (heap_of []) 0 20 50 14 12 26 9)
     = Inr 0"
  by (simp add: compute_indicators_def copy_df_def alloc_def setitem_def Let_def bars_of_def)

text \<open>
  C2, as amended: \<open>compute_indicators\<close> never fails with \<open>InsufficientDataError\<close>.  For
  every series, the empty one included, and positive window lengths it returns a table
  with one row per input bar: the bars of the input, and each of the six indicator
  columns with one value per bar.
\<close>

theorem compute_indicators_one_row_per_bar:
  assumes "0 < sma_fast" "0 < sma_slow" "0 < rsi_period"
    "0 < macd_fast" "0 < macd_slow" "0 < macd_signal"
  shows "\<exists>df h.
    compute_indicators h0 df0 sma_fast sma_slow rsi_period macd_fast macd_slow macd_signal = Inr (df, h) \<and>
    bars (objs h df) = bars (objs h0 df0) \<and>
    (\<forall>k \<in> {sma_key sma_fast, sma_key sma_slow, ''rsi'', ''macd'', ''macd_signal'', ''macd_hist''}.
       \<exists>col. cols (objs h df) k = Some col \<and> length col = length (bars (objs h0 df0)))"
proof -
  obtain h where h:
    "compute_indicators h0 df0 sma_fast sma_slow rsi_period macd_fast macd_slow macd_signal
      = Inr (next_addr h0, h)"
    using compute_indicators_returns by blast
  note r = compute_indicators_result [OF h]
  have "\<exists>col. cols (objs h (next_addr h0)) k = Some col \<and> length col = length (bars (objs h0 df0))"
    if "k \<in> {sma_key sma_fast, sma_key sma_slow, ''rsi'', ''macd'', ''macd_signal'', ''macd_hist''}"
    for k
    using that assms r(5-10)
    by (auto simp: length_RSI length_MACD_macd length_MACD_macd_signal length_MACD_macd_diff)
  with h r(4) show ?thesis by blast
qed

theorem compute_indicators_one_row_per_bar_witness:
  "(\<exists>df h. compute_indicators (heap_of [1, 2, 3, 2, 5, 7]) 0 2 3 2 2 3 2 = Inr (df, h) \<and>
      bars (objs h df) = bars_of [1, 2, 3, 2, 5, 7] \<and>
      (\<exists>col. cols (objs h df) ''macd_hist'' = Some col \<and> length col = 6)) \<and>
   (\<exists>df h. compute_indicators (heap_of []) 0 20 50 14 12 26 9 = Inr (df, h) \<and>
      bars (objs h df) = [] \<and>
      (\<exists>col. cols (objs h df) ''rsi'' = Some col \<and> length col = 0))"
proof -
  from compute_indicators_one_row_per_bar [of 2 3 2 2 3 2 "heap_of [1, 2, 3, 2, 5, 7]" 0]
  obtain df h where
    "compute_indicators (heap_of [1, 2, 3, 2, 5, 7]) 0 2 3 2 2 3 2 = Inr (df, h)"
    "bars (objs h df) = bars_of [1, 2, 3, 2, 5, 7]"
    "\<exists>col. cols (objs h df) ''macd_hist'' = Some col \<and> length col = 6"
    by auto
  moreover
  from compute_indicators_one_row_per_bar [of 20 50 14 12 26 9 "heap_of []" 0]
  obtain df' h' where
    "compute_indicators (heap_of []) 0 20 50 14 12 26 9 = Inr (df', h')"
    "bars (objs h' df') = []"
    "\<exists>col. cols (objs h' df') ''rsi'' = Some col \<and> length col = 0"
    by (auto simp: bars_of_def)
  ultimately show ?thesis by blast
qed

text \<open>
  C6: in every row of the table that \<open>compute_indicators\<close> returns where macd and
  macd_signal are defined, macd_hist is macd minus macd_signal.
\<close>

theorem macd_hist_is_difference:
  assumes "compute_indicators h0 df0 sma_fast sma_slow rsi_period macd_fast macd_slow macd_signal
      = Inr (df, h)"
    and "0 < macd_fast" "0 < macd_slow" "0 < macd_signal"
    and "i < length (bars (objs h df))"
    and "cols (objs h df) ''macd'' = Some ms" "ms ! i = Num a"
    and "cols (objs h df) ''macd_signal'' = Some ss" "ss ! i = Num b"
  shows "\<exists>hs. cols (objs h df) ''macd_hist'' = Some hs \<and> hs ! i = Num (a - b)"
proof -
  let ?xs = "map close (bars (objs h0 df0))"
  note r = compute_indicators_result [OF assms(1)]
  from r(8) assms(6) have ms: "ms = MACD_macd ?xs macd_slow macd_fast macd_signal" by simp
  from r(9) assms(8) have ss: "ss = MACD_macd_signal ?xs macd_slow macd_fast macd_signal" by simp
  from assms(5) r(4) have i: "i < length ?xs" by simp
  with assms(2-4) have "i < length ms" "i < length ss"
    by (simp_all add: ms ss length_MACD_macd length_MACD_macd_signal)
  then have "MACD_macd_diff ?xs macd_slow macd_fast macd_signal ! i = fsub (ms ! i) (ss ! i)"
    by (simp add: MACD_macd_diff_def ms ss)
  with assms(7,9) r(10) show ?thesis by simp
qed

theorem macd_hist_is_difference_witness:
  "\<exists>df h. compute_indicators (heap_of [1, 2, 3, 2, 5, 7]) 0 2 3 2 2 3 2 = Inr (df, h) \<and>
     cols (objs h df) ''macd'' = Some [NaN, NaN, Num (1 / 2), Num (1 / 6), Num (5 / 9), Num (83 / 108)] \<and>
     cols (objs h df) ''macd_signal'' = Some [NaN, NaN, NaN, Num (1 / 3), Num (13 / 27), Num (109 / 162)] \<and>
     (\<exists>hs. cols (objs h df) ''macd_hist'' = Some hs \<and> hs ! 3 = Num (1 / 6 - 1 / 3))"
proof -
  obtain h where h: "compute_indicators (heap_of [1, 2, 3, 2, 5, 7]) 0 2 3 2 2 3 2 = Inr (1, h)"
    by (rule example_run)
  note r = compute_indicators_result [OF h]
  from r(4) have len: "3 < length (bars (objs h 1))" by simp
  from r(8) have ms: "cols (objs h 1) ''macd'' =
      Some [NaN, NaN, Num (1 / 2), Num (1 / 6), Num (5 / 9), Num (83 / 108)]"
    by (simp add: example_macd)
  from r(9) have ss: "cols (objs h 1) ''macd_signal'' =
      Some [NaN, NaN, NaN, Num (1 / 3), Num (13 / 27), Num (109 / 162)]"
    by (simp add: example_macd_signal)
  from macd_hist_is_difference [OF h _ _ _ len ms _ ss, of "1 / 6" "1 / 3"]
  have "\<exists>hs. cols (objs h 1) ''macd_hist'' = Some hs \<and> hs ! 3 = Num (1 / 6 - 1 / 3)"
    by simp
  with h ms ss show ?thesis by blast
qed

text \<open>
  C7: for every series and every positive \<open>rsi_period\<close>, every defined value of the rsi
  column that \<open>compute_indicators\<close> returns lies in the closed interval from 0 to 100.
\<close>

theorem rsi_within_0_100:
  assumes "compute_indicators h0 df0 sma_fast sma_slow rsi_period macd_fast macd_slow macd_signal
      = Inr (df, h)"
    and "0 < rsi_period"
    and "cols (objs h df) ''rsi'' = Some col" "i < length col" "col ! i = Num v"
  shows "0 \<le> v \<and> v \<le> 100"
proof -
  from compute_indicators_result(7) [OF assms(1)] assms(3)
  have "col = RSIIndicator_rsi (map close (bars (objs h0 df0))) rsi_period" by simp
  with assms(2,4,5) show ?thesis by (simp add: RSI_bounds)
qed

theorem rsi_within_0_100_witness:
  "\<exists>df h. compute_indicators (heap_of [1, 2, 3, 2, 5, 7]) 0 2 3 2 2 3 2 = Inr (df, h) \<and>
     cols (objs h df) ''rsi'' = Some [NaN, NaN, Num 100, Num 50, Num (175 / 2), Num (375 / 4)] \<and>
     (0::real) \<le> 175 / 2 \<and> (175 / 2 :: real) \<le> 100"
proof -
  obtain h where h: "compute_indicators (heap_of [1, 2, 3, 2, 5, 7]) 0 2 3 2 2 3 2 = Inr (1, h)"
    by (rule example_run)
  from compute_indicators_result(7) [OF h]
  have col: "cols (objs h 1) ''rsi'' = Some [NaN, NaN, Num 100, Num 50, Num (175 / 2), Num (375 / 4)]"
    by (simp add: example_rsi)
  from rsi_within_0_100 [OF h _ col, of 4 "175 / 2"]
  have "(0::real) \<le> 175 / 2 \<and> (175 / 2 :: real) \<le> 100"
    by simp
  with h col show ?thesis by blast
qed

text \<open>
  C8: \<open>compute_indicators\<close> has no side effects.  The frame it is given, and every other
  frame allocated before the call, is unchanged after it; and the returned frame depends
  only on the contents of the input frame and on the configuration: a call on any heap
  and address that holds the same contents returns the same frame.
\<close>

theorem compute_indicators_no_side_effects:
  assumes "compute_indicators h0 df0 sma_fast sma_slow rsi_period macd_fast macd_slow macd_signal
      = Inr (df, h)"
    and "df0 < next_addr h0"
    and "compute_indicators h0' df0' sma_fast sma_slow rsi_period macd_fast macd_slow macd_signal
      = Inr (df', h')"
    and "objs h0' df0' = objs h0 df0"
  shows "objs h df0 = objs h0 df0 \<and> (\<forall>a<next_addr h0. objs h a = objs h0 a) \<and>
    objs h' df' = objs h df"
proof -
  note r = compute_indicators_result [OF assms(1)]
  from r(1,3) have frame: "\<forall>a<next_addr h0. objs h a = objs h0 a" by simp
  from assms(1,3,4) have "objs h' df' = objs h df"
    by (auto simp: compute_indicators_def copy_df_def alloc_def setitem_def close_col_def Let_def)
  with frame assms(2) show ?thesis by simp
qed

theorem compute_indicators_no_side_effects_witness:
  "\<exists>df h df' h'.
     compute_indicators (heap_of [1, 2, 3, 2, 5, 7]) 0 2 3 2 2 3 2 = Inr (df, h) \<and>
     compute_indicators (snd (alloc (heap_of [4, 2]) (objs (heap_of [1, 2, 3, 2, 5, 7]) 0))) 1 2 3 2 2 3 2
       = Inr (df', h') \<and>
     objs h 0 = \<lparr>bars = bars_of [1, 2, 3, 2, 5, 7], cols = Map.empty\<rparr> \<and>
     objs h' df' = objs h df"
proof -
  let ?h0' = "snd (alloc (heap_of [4, 2]) (objs (heap_of [1, 2, 3, 2, 5, 7]) 0))"
  obtain h where h: "compute_indicators (heap_of [1, 2, 3, 2, 5, 7]) 0 2 3 2 2 3 2 = Inr (1, h)"
    by (rule example_run)
  obtain h' where h': "compute_indicators ?h0' 1 2 3 2 2 3 2 = Inr (next_addr ?h0', h')"
    using compute_indicators_returns by blast
  have same: "objs ?h0' 1 = objs (heap_of [1, 2, 3, 2, 5, 7]) 0"
    by (simp add: alloc_def)
  from compute_indicators_no_side_effects [OF h _ h' same]
  have "objs h 0 = objs (heap_of [1, 2, 3, 2, 5, 7]) 0 \<and> objs h' (next_addr ?h0') = objs h 1"
    by simp
  with h h' show ?thesis by (simp only: heap_of_simps) blast
qed

end
